theory Spec2Isabelle
  imports Complex_Main "HOL-Library.AList"
begin

section \<open>Data model\<close>

text \<open>
  Metadata is a Python dict from string keys to scalar values. The values that the
  retrieval and indexing code inspects are strings and integers; floating point and
  boolean metadata values are not part of the modelled value space. A dict is an
  association list with \<open>map_of\<close> as lookup, so that concrete dicts can be compared.
\<close>

datatype mval = MStr string | MInt int

type_synonym metadata = "(string \<times> mval) list"

definition md_get :: "metadata \<Rightarrow> string \<Rightarrow> mval option" where
  "md_get m k = map_of m k"

definition md_get_default :: "metadata \<Rightarrow> string \<Rightarrow> mval \<Rightarrow> mval" where
  "md_get_default m k d = (case map_of m k of None \<Rightarrow> d | Some v \<Rightarrow> v)"

text \<open>Embedding vectors and distances are floats in the source; the model uses rationals.\<close>

type_synonym vec = "rat list"

text \<open>An Indexed Record of the Index Store (one row of the Chroma collection).\<close>

record item =
  item_id :: string
  item_embedding :: vec
  item_document :: string
  item_meta :: metadata

text \<open>
  One ranked candidate of a similarity query: the source keeps four parallel lists
  (\<open>ids\<close>, \<open>documents\<close>, \<open>metadatas\<close>, \<open>distances\<close>) that are always read at the same
  index, modelled as one list of records.
\<close>

record hit =
  hit_id :: string
  hit_document :: string
  hit_meta :: metadata
  hit_distance :: rat

text \<open>One formatted result of \<open>perform_enhanced_rag_query\<close>.\<close>

record result =
  r_source :: mval
  r_date :: mval
  r_text :: string
  r_distance :: rat
  r_chunk_type :: mval
  r_context_note :: string

text \<open>A parsed markdown file (\<open>frontmatter.Post\<close>): metadata and body.\<close>

record post =
  post_metadata :: metadata
  post_content :: string

text \<open>A chunk as produced by \<open>split_docs\<close>.\<close>

record chunk =
  chunk_id :: string
  chunk_text :: string
  chunk_metadata :: metadata

text \<open>
  A file found by \<open>os.walk\<close> below the journal root: its file name, its path relative
  to the root, its modification time, and what \<open>frontmatter.load\<close> does on it
  (\<open>None\<close> when it raises).
\<close>

record md_file =
  file_name :: string
  file_rel_path :: string
  file_mtime :: rat
  file_parse :: "post option"

text \<open>The watermark file \<open>last_indexed_time.txt\<close>.\<close>

datatype wm_file = WmMissing | WmUnreadable | WmStamp rat

text \<open>Calls to the external collaborators, in the order they are made.\<close>

datatype call =
    Encode "string list"
  | StoreQuery int
  | StoreGet mval
  | StoreUpsert "string list"
  | FrontmatterLoad string
  | SplitText string

datatype exn = Exn string

text \<open>
  The world the two servers run in. The external capabilities are fields: the embedding
  model (\<open>embed\<close>), the distance of the vector store (\<open>distance_fn\<close>), the text splitter of
  the chunker (\<open>split_text\<close>), and for each call that may raise the message of the
  exception it raises, if any. The mutable parts are the store contents, the watermark
  file and the trace of external calls. \<open>rag_search_path\<close> is the location of the
  module \<open>rag_search\<close>, which only appears in the text of an import error.
\<close>

record world =
  is_initialized :: bool
  embed :: "string \<Rightarrow> vec"
  distance_fn :: "vec \<Rightarrow> vec \<Rightarrow> rat"
  split_text :: "string \<Rightarrow> string list"
  fault_encode :: "string option"
  fault_query :: "string option"
  fault_get :: "string option"
  fault_upsert :: "string option"
  fault_write_time :: "string option"
  model_available :: bool
  store_available :: bool
  store :: "item list"
  journal :: "md_file list option"
  watermark :: wm_file
  clock :: rat
  rag_search_path :: string
  calls :: "call list"

section \<open>Python helpers\<close>

text \<open>\<open>xs[:n]\<close> for an integer \<open>n\<close>; a negative \<open>n\<close> counts from the end.\<close>

definition py_take :: "int \<Rightarrow> 'a list \<Rightarrow> 'a list" where
  "py_take n xs = (if 0 \<le> n then take (nat n) xs else take (length xs - nat (- n)) xs)"

text \<open>\<open>str.isspace\<close> on the ASCII range, and \<open>str.strip\<close>.\<close>

definition py_isspace :: "char \<Rightarrow> bool" where
  "py_isspace c = (let n = (of_char c :: nat) in (9 \<le> n \<and> n \<le> 13) \<or> (28 \<le> n \<and> n \<le> 32))"

definition strip :: "string \<Rightarrow> string" where
  "strip s = rev (dropWhile py_isspace (rev (dropWhile py_isspace s)))"

text \<open>\<open>str(n)\<close> for an integer, and the text an f-string inserts for a metadata value.\<close>

fun str_of_nat :: "nat \<Rightarrow> string" where
  "str_of_nat n =
     (if n < 10 then [char_of (48 + n)]
      else str_of_nat (n div 10) @ [char_of (48 + n mod 10)])"

declare str_of_nat.simps [simp del]

definition str_of_int :: "int \<Rightarrow> string" where
  "str_of_int i = (if i < 0 then CHR ''-'' # str_of_nat (nat (- i)) else str_of_nat (nat i))"

fun py_str :: "mval \<Rightarrow> string" where
  "py_str (MStr s) = s"
| "py_str (MInt i) = str_of_int i"

section \<open>External collaborators\<close>

text \<open>\<open>embedding_model.encode([text])\<close>, for the one query text.\<close>

definition model_encode :: "world \<Rightarrow> string \<Rightarrow> (exn + vec) \<times> world" where
  "model_encode w t =
     (let w1 = w\<lparr>calls := calls w @ [Encode [t]]\<rparr>
      in case fault_encode w of
           Some m \<Rightarrow> (Inl (Exn m), w1)
         | None \<Rightarrow> (Inr (embed w t), w1))"

text \<open>
  \<open>collection.query(query_embeddings, n_results)\<close>: the \<open>n_results\<close> nearest records by
  ascending distance, ties in storage order.
\<close>

definition hit_of :: "world \<Rightarrow> vec \<Rightarrow> item \<Rightarrow> hit" where
  "hit_of w qv it =
     \<lparr>hit_id = item_id it, hit_document = item_document it, hit_meta = item_meta it,
      hit_distance = distance_fn w qv (item_embedding it)\<rparr>"

definition ranked :: "world \<Rightarrow> vec \<Rightarrow> hit list" where
  "ranked w qv = sort_key hit_distance (map (hit_of w qv) (store w))"

definition collection_query :: "world \<Rightarrow> vec \<Rightarrow> int \<Rightarrow> (exn + hit list) \<times> world" where
  "collection_query w qv n =
     (let w1 = w\<lparr>calls := calls w @ [StoreQuery n]\<rparr>
      in case fault_query w of
           Some m \<Rightarrow> (Inl (Exn m), w1)
         | None \<Rightarrow> (Inr (take (nat n) (ranked w qv)), w1))"

text \<open>
  \<open>collection.get(where = {source = s and chunk_type = "full_entry"})\<close>: the matching
  records in storage order.
\<close>

definition is_full_entry_of :: "mval \<Rightarrow> item \<Rightarrow> bool" where
  "is_full_entry_of s it =
     (md_get (item_meta it) ''source'' = Some s
      \<and> md_get (item_meta it) ''chunk_type'' = Some (MStr ''full_entry''))"

definition collection_get :: "world \<Rightarrow> mval \<Rightarrow> (exn + item list) \<times> world" where
  "collection_get w s =
     (let w1 = w\<lparr>calls := calls w @ [StoreGet s]\<rparr>
      in case fault_get w of
           Some m \<Rightarrow> (Inl (Exn m), w1)
         | None \<Rightarrow> (Inr (filter (is_full_entry_of s) (store w)), w1))"

section \<open>Retriever (legacy server)\<close>

text \<open>
  The body of the loop of \<open>expand_context_for_results\<close> that appends one entry: a
  partial chunk is replaced by the first full entry of its source when
  \<open>collection.get\<close> finds one, keeping the candidate's distance.
\<close>

definition expand_entry :: "world \<Rightarrow> hit \<Rightarrow> mval \<Rightarrow> hit \<times> world" where
  "expand_entry w c source =
     (if md_get (hit_meta c) ''chunk_type'' = Some (MStr ''partial_entry'') then
        (case collection_get w source of
           (Inl e, w1) \<Rightarrow> (c, w1)
         | (Inr [], w1) \<Rightarrow> (c, w1)
         | (Inr (f # fs), w1) \<Rightarrow>
             (\<lparr>hit_id = item_id f, hit_document = item_document f, hit_meta = item_meta f,
               hit_distance = hit_distance c\<rparr>, w1))
      else (c, w))"

definition source_key :: "hit \<Rightarrow> mval" where
  "source_key c = md_get_default (hit_meta c) ''source'' (MStr [])"

fun expand_loop ::
  "int \<Rightarrow> hit list \<Rightarrow> mval set \<Rightarrow> int \<Rightarrow> hit list \<Rightarrow> world \<Rightarrow> hit list \<times> world" where
  "expand_loop n [] seen added acc w = (acc, w)"
| "expand_loop n (c # cs) seen added acc w =
     (if n \<le> added then (acc, w)
      else if source_key c \<in> seen then expand_loop n cs seen added acc w
      else if n \<le> added then (acc, w)
      else (case expand_entry w c (source_key c) of
              (e, w1) \<Rightarrow>
                if n \<le> added + 1 then (acc @ [e], w1)
                else expand_loop n cs (insert (source_key c) seen) (added + 1) (acc @ [e]) w1))"

definition expand_context_for_results ::
  "world \<Rightarrow> hit list \<Rightarrow> int \<Rightarrow> hit list \<times> world" where
  "expand_context_for_results w results n =
     (if results = [] then (results, w)
      else (case expand_loop n results {} 0 [] w of
              (acc, w1) \<Rightarrow> (if n < int (length acc) then py_take n acc else acc, w1)))"

definition format_result :: "hit \<Rightarrow> result" where
  "format_result h =
     (let metadata = hit_meta h;
          source = md_get_default metadata ''source'' (MStr ''N/A'');
          date_created = md_get_default metadata ''date''
                           (md_get_default metadata ''created'' (MStr ''Unknown date''));
          chunk_type = md_get_default metadata ''chunk_type'' (MStr ''unknown'')
      in \<lparr>r_source = source, r_date = date_created, r_text = hit_document h,
          r_distance = hit_distance h, r_chunk_type = chunk_type,
          r_context_note =
            (if chunk_type = MStr ''full_entry'' then ''Full entry from '' @ py_str source
             else ''Excerpt from '' @ py_str source)\<rparr>)"

text \<open>
  \<open>perform_enhanced_rag_query\<close> returns \<open>(results, None)\<close> or \<open>(None, message)\<close>:
  \<open>Inr results\<close> and \<open>Inl message\<close>.
\<close>

definition perform_enhanced_rag_query ::
  "world \<Rightarrow> string \<Rightarrow> int \<Rightarrow> (string + result list) \<times> world" where
  "perform_enhanced_rag_query w query_text n_results =
     (if \<not> is_initialized w then (Inl ''Resources not initialized'', w)
      else (case model_encode w (strip query_text) of
              (Inl (Exn m), w1) \<Rightarrow> (Inl m, w1)
            | (Inr qv, w1) \<Rightarrow>
                (case collection_query w1 qv (n_results * 2) of
                   (Inl (Exn m), w2) \<Rightarrow> (Inl m, w2)
                 | (Inr raw_results, w2) \<Rightarrow>
                     (case expand_context_for_results w2 raw_results n_results of
                        (expanded_results, w3) \<Rightarrow>
                          (let formatted_results = map format_result expanded_results;
                               final_results =
                                 (if n_results < int (length formatted_results)
                                  then py_take n_results formatted_results
                                  else formatted_results);
                               final_results2 =
                                 (if int (length final_results) \<noteq> n_results
                                  then py_take n_results final_results
                                  else final_results)
                           in (Inr final_results2, w3))))))"

text \<open>
  The \<open>query_journal\<close> branch of \<open>tools/call\<close> in \<open>main\<close>. The arguments are a JSON
  object; a JSON value is a string, an integer, a boolean, null, or anything else. A
  boolean is an \<open>int\<close> for \<open>isinstance\<close>, with \<open>True\<close> acting as 1 and \<open>False\<close> as 0.
\<close>

datatype jval = JNull | JStr string | JInt int | JBool bool | JOther

datatype response = RpcError int string | RpcContent "result list"

definition DEFAULT_N_RESULTS :: int where
  "DEFAULT_N_RESULTS = 10"

definition nonempty_str :: "jval \<Rightarrow> string option" where
  "nonempty_str v = (case v of JStr s \<Rightarrow> (if s = [] then None else Some s) | _ \<Rightarrow> None)"

definition positive_int :: "jval \<Rightarrow> int option" where
  "positive_int v =
     (case v of
        JInt n \<Rightarrow> (if n < 1 then None else Some n)
      | JBool b \<Rightarrow> (if b then Some 1 else None)
      | _ \<Rightarrow> None)"

definition query_journal :: "world \<Rightarrow> (string \<times> jval) list \<Rightarrow> response \<times> world" where
  "query_journal w arguments =
     (let query = (case map_of arguments ''query'' of None \<Rightarrow> JNull | Some v \<Rightarrow> v);
          n_results = (case map_of arguments ''n_results'' of
                         None \<Rightarrow> JInt DEFAULT_N_RESULTS | Some v \<Rightarrow> v)
      in case nonempty_str query of
           None \<Rightarrow>
             (RpcError (- 32602)
                ''Invalid params: 'query' argument is missing or not a string.'', w)
         | Some q \<Rightarrow>
             (case positive_int n_results of
                None \<Rightarrow>
                  (RpcError (- 32602)
                     ''Invalid params: 'n_results' must be a positive integer (default: 10).'', w)
              | Some n \<Rightarrow>
                  (case perform_enhanced_rag_query w q n of
                     (Inl error_msg, w1) \<Rightarrow>
                       (if error_msg \<noteq> []
                        then (RpcError (- 32000) (''Query execution failed: '' @ error_msg), w1)
                        else (RpcError (- 32000)
                                ''Internal server error: object of type 'NoneType' has no len()'',
                              w1))
                   | (Inr results, w1) \<Rightarrow>
                       (RpcContent
                          (if int (length results) \<noteq> n then py_take n results else results),
                        w1))))"


section \<open>Document loading and chunking (rag\_search.py and the servers)\<close>

definition CHUNK_SIZE :: nat where
  "CHUNK_SIZE = 500"

definition CHUNK_OVERLAP :: nat where
  "CHUNK_OVERLAP = 50"

definition endswith :: "string \<Rightarrow> string \<Rightarrow> bool" where
  "endswith s suf = (length suf \<le> length s \<and> drop (length s - length suf) s = suf)"

text \<open>
  \<open>frontmatter.load\<close> followed by the default for \<open>source\<close>: the relative path is
  stored only when the front matter has no \<open>source\<close> of its own.
\<close>

definition with_source :: "md_file \<Rightarrow> post \<Rightarrow> post" where
  "with_source f p =
     (if map_of (post_metadata p) ''source'' = None
      then p\<lparr>post_metadata := AList.update ''source'' (MStr (file_rel_path f)) (post_metadata p)\<rparr>
      else p)"

text \<open>The walk of \<open>load_markdown_docs\<close>: every \<open>.md\<close> file is parsed, a failure is skipped.\<close>

fun load_all_loop :: "md_file list \<Rightarrow> post list \<Rightarrow> world \<Rightarrow> post list \<times> world" where
  "load_all_loop [] documents w = (documents, w)"
| "load_all_loop (f # fs) documents w =
     (if endswith (file_name f) ''.md'' then
        (let w1 = w\<lparr>calls := calls w @ [FrontmatterLoad (file_rel_path f)]\<rparr>
         in case file_parse f of
              Some p \<Rightarrow> load_all_loop fs (documents @ [with_source f p]) w1
            | None \<Rightarrow> load_all_loop fs documents w1)
      else load_all_loop fs documents w)"

definition load_markdown_docs :: "world \<Rightarrow> post list \<times> world" where
  "load_markdown_docs w =
     (case journal w of None \<Rightarrow> ([], w) | Some fs \<Rightarrow> load_all_loop fs [] w)"

text \<open>The walk of \<open>load_markdown_docs_since\<close>, with the test on the modification time.\<close>

fun load_since_loop ::
  "rat \<Rightarrow> md_file list \<Rightarrow> post list \<Rightarrow> world \<Rightarrow> post list \<times> world" where
  "load_since_loop timestamp [] documents w = (documents, w)"
| "load_since_loop timestamp (f # fs) documents w =
     (if endswith (file_name f) ''.md'' then
        (if timestamp < file_mtime f then
           (let w1 = w\<lparr>calls := calls w @ [FrontmatterLoad (file_rel_path f)]\<rparr>
            in case file_parse f of
                 Some p \<Rightarrow> load_since_loop timestamp fs (documents @ [with_source f p]) w1
               | None \<Rightarrow> load_since_loop timestamp fs documents w1)
         else load_since_loop timestamp fs documents w)
      else load_since_loop timestamp fs documents w)"

definition load_markdown_docs_since :: "world \<Rightarrow> rat \<Rightarrow> post list \<times> world" where
  "load_markdown_docs_since w timestamp =
     (case journal w of None \<Rightarrow> ([], w) | Some fs \<Rightarrow> load_since_loop timestamp fs [] w)"

text \<open>
  \<open>split_docs\<close>: the text splitter is the library's \<open>RecursiveCharacterTextSplitter\<close>,
  configured with \<open>CHUNK_SIZE\<close> and \<open>CHUNK_OVERLAP\<close>; what it returns for a body is the
  field \<open>split_text\<close> of the world. Each piece becomes a chunk whose metadata is a copy
  of the document's with \<open>chunk_index\<close> and \<open>chunk_id\<close> stored.
\<close>

definition make_chunk :: "post \<Rightarrow> nat \<Rightarrow> string \<Rightarrow> chunk" where
  "make_chunk doc i piece =
     (let cid = py_str (md_get_default (post_metadata doc) ''source'' (MStr ''unknown''))
                  @ ''_'' @ str_of_nat i;
          chunk_metadata1 = AList.update ''chunk_index'' (MInt (int i)) (post_metadata doc);
          chunk_metadata2 = AList.update ''chunk_id'' (MStr cid) chunk_metadata1
      in \<lparr>chunk_id = cid, chunk_text = piece, chunk_metadata = chunk_metadata2\<rparr>)"

definition chunks_of_doc :: "world \<Rightarrow> post \<Rightarrow> chunk list" where
  "chunks_of_doc w doc =
     map (\<lambda>(i, piece). make_chunk doc i piece) (enumerate 0 (split_text w (post_content doc)))"

fun split_docs_loop :: "post list \<Rightarrow> chunk list \<Rightarrow> world \<Rightarrow> chunk list \<times> world" where
  "split_docs_loop [] all_chunks w = (all_chunks, w)"
| "split_docs_loop (doc # docs) all_chunks w =
     split_docs_loop docs (all_chunks @ chunks_of_doc w doc)
       (w\<lparr>calls := calls w @ [SplitText (post_content doc)]\<rparr>)"

definition split_docs :: "world \<Rightarrow> post list \<Rightarrow> chunk list \<times> world" where
  "split_docs w documents = split_docs_loop documents [] w"

section \<open>Indexing (rag\_search.py)\<close>

text \<open>\<open>collection.upsert\<close>: a record with a known id is replaced, a new one is appended.\<close>

fun upsert_item :: "item \<Rightarrow> item list \<Rightarrow> item list" where
  "upsert_item it [] = [it]"
| "upsert_item it (x # xs) =
     (if item_id x = item_id it then it # xs else x # upsert_item it xs)"

definition item_of_chunk :: "world \<Rightarrow> chunk \<Rightarrow> item" where
  "item_of_chunk w c =
     \<lparr>item_id = chunk_id c, item_embedding = embed w (chunk_text c),
      item_document = chunk_text c, item_meta = chunk_metadata c\<rparr>"

text \<open>
  \<open>index_chunks(collection, chunks, embedding_model)\<close>; the two handles are passed as
  booleans (\<open>False\<close> for \<open>None\<close>). Embedding and upsert happen inside the function's own
  \<open>try\<close>, so an exception of either makes it return \<open>False\<close>.
\<close>

definition index_chunks :: "world \<Rightarrow> bool \<Rightarrow> chunk list \<Rightarrow> bool \<Rightarrow> bool \<times> world" where
  "index_chunks w collection chunks embedding_model =
     (if \<not> collection \<or> chunks = [] \<or> \<not> embedding_model then (False, w)
      else
        (let ids = map chunk_id chunks;
             documents = map chunk_text chunks;
             w1 = w\<lparr>calls := calls w @ [Encode documents]\<rparr>
         in case fault_encode w of
              Some m \<Rightarrow> (False, w1)
            | None \<Rightarrow>
                (let w2 = w1\<lparr>calls := calls w1 @ [StoreUpsert ids]\<rparr>
                 in case fault_upsert w of
                      Some m \<Rightarrow> (False, w2)
                    | None \<Rightarrow>
                        (True, w2\<lparr>store := foldl (\<lambda>st c. upsert_item (item_of_chunk w c) st)
                                              (store w2) chunks\<rparr>))))"

section \<open>Incremental indexer (both servers)\<close>

definition get_last_indexed_time :: "world \<Rightarrow> rat" where
  "get_last_indexed_time w =
     (case watermark w of WmMissing \<Rightarrow> 0 | WmUnreadable \<Rightarrow> 0 | WmStamp t \<Rightarrow> t)"

text \<open>
  \<open>update_last_indexed_time\<close> writes the current time; when creating the directory or
  opening the file raises, the file is left as it was and \<open>False\<close> is returned.
\<close>

definition update_last_indexed_time :: "world \<Rightarrow> bool \<times> world" where
  "update_last_indexed_time w =
     (case fault_write_time w of
        Some m \<Rightarrow> (False, w)
      | None \<Rightarrow> (True, w\<lparr>watermark := WmStamp (clock w)\<rparr>))"

text \<open>
  The names that the module \<open>rag_search\<close> defines at top level, and
  \<open>from rag_search import (...)\<close>: the first requested name that the module does not
  define raises \<open>ImportError\<close>.
\<close>

definition rag_search_names :: "string list" where
  "rag_search_names =
     [''os'', ''frontmatter'', ''RecursiveCharacterTextSplitter'', ''SentenceTransformer'',
      ''chromadb'', ''torch'', ''Console'', ''console'', ''PROJECT_ROOT'', ''DATA_DIRECTORY'',
      ''CHROMA_DB_PATH'', ''CHROMA_COLLECTION_NAME'', ''EMBEDDING_MODEL_NAME'', ''CHUNK_SIZE'',
      ''CHUNK_OVERLAP'', ''load_markdown_docs'', ''split_docs'', ''initialize_embedding_model'',
      ''initialize_vector_store'', ''index_chunks'', ''query_rag'']"

definition quoted :: "string \<Rightarrow> string" where
  "quoted s = CHR 0x27 # s @ [CHR 0x27]"

definition import_from_rag_search :: "world \<Rightarrow> string list \<Rightarrow> string option" where
  "import_from_rag_search w names =
     (case find (\<lambda>n. n \<notin> set rag_search_names) names of
        None \<Rightarrow> None
      | Some n \<Rightarrow>
          Some (''cannot import name '' @ quoted n @ '' from '' @ quoted ''rag_search''
                @ '' ('' @ rag_search_path w @ '')''))"

text \<open>
  The body of \<open>update_journal_index\<close> after the import, the same text in both servers.
\<close>

definition index_journal :: "world \<Rightarrow> bool \<Rightarrow> (bool \<times> string) \<times> world" where
  "index_journal w full_reindex =
     (case (if full_reindex then load_markdown_docs w
            else load_markdown_docs_since w (get_last_indexed_time w)) of
        (documents, w1) \<Rightarrow>
          if \<not> full_reindex \<and> documents = []
          then ((True, ''No new or modified journal entries found.''), w1)
          else
            (case split_docs w1 documents of
               (chunks, w2) \<Rightarrow>
                 if chunks = []
                 then ((True, ''No chunks generated from '' @ str_of_nat (length documents)
                               @ '' files.''), w2)
                 else if \<not> model_available w2 \<or> \<not> store_available w2
                 then ((False, ''Failed to initialize embedding model or vector store.''), w2)
                 else
                   (case index_chunks w2 True chunks True of
                      (indexing_successful, w3) \<Rightarrow>
                        if indexing_successful
                        then (case update_last_indexed_time w3 of
                                (written, w4) \<Rightarrow>
                                  ((True, ''Successfully indexed '' @ str_of_nat (length chunks)
                                          @ '' chunks from '' @ str_of_nat (length documents)
                                          @ '' files.''), w4))
                        else ((False, ''Indexing failed.''), w3))))"

text \<open>\<open>update_journal_index\<close> of the current server (code/mcp).\<close>

definition update_journal_index :: "world \<Rightarrow> bool \<Rightarrow> (bool \<times> string) \<times> world" where
  "update_journal_index w full_reindex =
     (case import_from_rag_search w
             [''load_markdown_docs'', ''split_docs'', ''initialize_embedding_model'',
              ''initialize_vector_store'', ''index_chunks''] of
        Some e \<Rightarrow> ((False, ''Error importing from rag_search.py: '' @ e), w)
      | None \<Rightarrow> index_journal w full_reindex)"

text \<open>\<open>update_journal_index\<close> of the legacy server (.tech/code/python\_legacy/mcp).\<close>

definition legacy_update_journal_index :: "world \<Rightarrow> bool \<Rightarrow> (bool \<times> string) \<times> world" where
  "legacy_update_journal_index w full_reindex =
     (case import_from_rag_search w
             [''load_markdown_docs'', ''split_docs'', ''initialize_embedding_model'',
              ''initialize_vector_store'', ''index_chunks'', ''create_semantic_chunks''] of
        Some e \<Rightarrow> ((False, ''Error importing from rag_search.py: '' @ e), w)
      | None \<Rightarrow> index_journal w full_reindex)"

section \<open>Specification vocabulary\<close>

text \<open>
  The notions the statements below are written in; none of them is part of the program.
  \<open>unique_sources seen cs\<close> keeps, in ranked order, the first candidate of every
  source key that is not in \<open>seen\<close>.
\<close>

fun unique_sources :: "mval set \<Rightarrow> hit list \<Rightarrow> hit list" where
  "unique_sources seen [] = []"
| "unique_sources seen (c # cs) =
     (if source_key c \<in> seen then unique_sources seen cs
      else c # unique_sources (insert (source_key c) seen) cs)"

definition is_partial :: "hit \<Rightarrow> bool" where
  "is_partial c = (md_get (hit_meta c) ''chunk_type'' = Some (MStr ''partial_entry''))"

definition expanded :: "world \<Rightarrow> hit \<Rightarrow> hit" where
  "expanded w c = fst (expand_entry w c (source_key c))"

definition get_calls :: "hit list \<Rightarrow> call list" where
  "get_calls cs = map (\<lambda>c. StoreGet (source_key c)) (filter is_partial cs)"

text \<open>The candidates a search fetches, and those of them that it emits.\<close>

definition fetched :: "world \<Rightarrow> string \<Rightarrow> int \<Rightarrow> hit list" where
  "fetched w q n = take (nat (n * 2)) (ranked w (embed w (strip q)))"

definition selected :: "world \<Rightarrow> string \<Rightarrow> int \<Rightarrow> hit list" where
  "selected w q n = take (nat n) (unique_sources {} (fetched w q n))"

text \<open>The sources of all records of the store, for a count of the distinct ones.\<close>

definition store_sources :: "world \<Rightarrow> mval set" where
  "store_sources w = (\<lambda>it. md_get_default (item_meta it) ''source'' (MStr [])) ` set (store w)"


definition journal_files :: "world \<Rightarrow> md_file list" where
  "journal_files w = (case journal w of None \<Rightarrow> [] | Some fs \<Rightarrow> fs)"

text \<open>The calls that a run from \<open>w\<close> to \<open>w'\<close> added to the trace.\<close>

definition new_calls :: "world \<Rightarrow> world \<Rightarrow> call list" where
  "new_calls w w' = drop (length (calls w)) (calls w')"

text \<open>
  The files an indexing run selects, the documents it obtains from them, and the chunks
  of these documents.
\<close>

definition selected_files :: "world \<Rightarrow> bool \<Rightarrow> md_file list" where
  "selected_files w full =
     filter (\<lambda>f. endswith (file_name f) ''.md''
                 \<and> (full \<or> get_last_indexed_time w < file_mtime f)) (journal_files w)"

definition parsed :: "md_file list \<Rightarrow> post list" where
  "parsed fs = List.map_filter (\<lambda>f. map_option (with_source f) (file_parse f)) fs"

definition run_chunks :: "world \<Rightarrow> bool \<Rightarrow> chunk list" where
  "run_chunks w full = concat (map (chunks_of_doc w) (parsed (selected_files w full)))"

text \<open>The calls of an indexing run up to the point where the chunks are known.\<close>

definition prep_calls :: "world \<Rightarrow> bool \<Rightarrow> call list" where
  "prep_calls w full =
     map (\<lambda>f. FrontmatterLoad (file_rel_path f)) (selected_files w full)
     @ map (\<lambda>d. SplitText (post_content d)) (parsed (selected_files w full))"

section \<open>Example data\<close>

definition squared_l2 :: "vec \<Rightarrow> vec \<Rightarrow> rat" where
  "squared_l2 u v = sum_list (map (\<lambda>(a, b). (a - b) * (a - b)) (zip u v))"

definition mk_item :: "string \<Rightarrow> int \<Rightarrow> string \<Rightarrow> rat \<Rightarrow> string \<Rightarrow> item" where
  "mk_item src i ty e txt =
     \<lparr>item_id = src @ ''_'' @ str_of_int i, item_embedding = [e], item_document = txt,
      item_meta = [(''source'', MStr src), (''chunk_index'', MInt i), (''chunk_type'', MStr ty)]\<rparr>"

text \<open>
  A world with an empty store and journal, in which every query text is embedded at
  the origin and the splitter returns the body as one piece.
\<close>

definition base_world :: world where
  "base_world =
     \<lparr>is_initialized = True, embed = (\<lambda>t. [0]), distance_fn = squared_l2,
      split_text = (\<lambda>t. [t]), fault_encode = None, fault_query = None, fault_get = None,
      fault_upsert = None, fault_write_time = None, model_available = True,
      store_available = True, store = [], journal = Some [], watermark = WmMissing,
      clock = 100, rag_search_path = ''rag_search.py'', calls = []\<rparr>"

text \<open>Four chunks of \<open>a.md\<close> nearest to the query, then the single chunk of \<open>b.md\<close>.\<close>

definition crowded_store :: "item list" where
  "crowded_store =
     [mk_item ''a.md'' 0 ''partial_entry'' 0 ''a0'',
      mk_item ''a.md'' 1 ''partial_entry'' 1 ''a1'',
      mk_item ''a.md'' 2 ''partial_entry'' 2 ''a2'',
      mk_item ''a.md'' 3 ''partial_entry'' 3 ''a3'',
      mk_item ''b.md'' 0 ''full_entry'' 4 ''b0'']"

definition crowded_world :: world where
  "crowded_world = base_world\<lparr>store := crowded_store\<rparr>"

text \<open>
  A fragment of \<open>b.md\<close> nearest to the query, the whole of \<open>a.md\<close>, and a record of the
  whole of \<open>b.md\<close> that ranks last.
\<close>

definition expanding_store :: "item list" where
  "expanding_store =
     [mk_item ''b.md'' 1 ''partial_entry'' 0 ''fragment of b'',
      mk_item ''a.md'' 0 ''full_entry'' 1 ''whole a'',
      mk_item ''b.md'' 0 ''full_entry'' 5 ''whole b'']"

definition expanding_world :: world where
  "expanding_world = base_world\<lparr>store := expanding_store\<rparr>"

text \<open>
  A journal with a recent entry, a text file, an entry older than the watermark and an
  entry whose front matter cannot be parsed; the watermark is 10.
\<close>

definition journal_world :: world where
  "journal_world =
     base_world\<lparr>journal :=
        Some [\<lparr>file_name = ''a.md'', file_rel_path = ''2024/a.md'', file_mtime = 50,
               file_parse = Some \<lparr>post_metadata = [(''mood'', MInt 7)],
                                   post_content = ''hello''\<rparr>\<rparr>,
              \<lparr>file_name = ''notes.txt'', file_rel_path = ''notes.txt'', file_mtime = 60,
               file_parse = None\<rparr>,
              \<lparr>file_name = ''old.md'', file_rel_path = ''old.md'', file_mtime = 5,
               file_parse = Some \<lparr>post_metadata = [(''source'', MStr ''mine'')],
                                   post_content = ''older''\<rparr>\<rparr>,
              \<lparr>file_name = ''broken.md'', file_rel_path = ''broken.md'', file_mtime = 70,
               file_parse = None\<rparr>],
      watermark := WmStamp 10\<rparr>"

text \<open>The same journal with a store whose upsert raises.\<close>

definition failing_world :: world where
  "failing_world = journal_world\<lparr>fault_upsert := Some ''store is read-only''\<rparr>"

text \<open>A document of one piece, and a splitter that cuts every body in two.\<close>

definition short_doc :: post where
  "short_doc = \<lparr>post_metadata = [(''source'', MStr ''a.md'')], post_content = ''hello''\<rparr>"

definition halving_world :: world where
  "halving_world = base_world\<lparr>split_text := (\<lambda>t. [take 3 t, drop 3 t])\<rparr>"

section \<open>The expansion loop\<close>

lemma snd_expand_entry:
  "snd (expand_entry w c s) = w\<lparr>calls := calls w @ (if is_partial c then [StoreGet s] else [])\<rparr>"
  by (simp add: expand_entry_def collection_get_def is_partial_def Let_def
           split: option.splits list.splits)

lemma fst_expand_entry_calls:
  "fst (expand_entry (w\<lparr>calls := x\<rparr>) c s) = fst (expand_entry w c s)"
  by (simp add: expand_entry_def collection_get_def Let_def split: option.splits list.splits)

lemma expanded_calls [simp]: "expanded (w\<lparr>calls := x\<rparr>) c = expanded w c"
  by (simp add: expanded_def fst_expand_entry_calls)

lemma expand_entry_eq:
  "expand_entry w c (source_key c) =
     (expanded w c, w\<lparr>calls := calls w @ (if is_partial c then [StoreGet (source_key c)] else [])\<rparr>)"
  by (metis expanded_def snd_expand_entry prod.collapse)

text \<open>
  The loop appends the expansion of the first \<open>n - added\<close> candidates with a new source
  and asks the store once for each partial one of them.
\<close>

lemma expand_loop_eq:
  "expand_loop n cs seen added acc w =
     (acc @ map (expanded w) (take (nat (n - added)) (unique_sources seen cs)),
      w\<lparr>calls := calls w @ get_calls (take (nat (n - added)) (unique_sources seen cs))\<rparr>)"
proof (induction cs arbitrary: seen added acc w)
  case Nil
  show ?case by (simp add: get_calls_def)
next
  case (Cons c cs)
  show ?case
  proof (cases "n \<le> added")
    case True
    then show ?thesis by (simp add: get_calls_def)
  next
    case False
    then have k: "nat (n - added) = Suc (nat (n - (added + 1)))" by simp
    show ?thesis
    proof (cases "source_key c \<in> seen")
      case True
      with False show ?thesis by (simp add: Cons.IH)
    next
      case notin: False
      show ?thesis
      proof (cases "n \<le> added + 1")
        case True
        then have "nat (n - (added + 1)) = 0" by simp
        with False notin True k show ?thesis
          by (simp add: expand_entry_eq get_calls_def)
      next
        case far: False
        with False notin k show ?thesis
          by (simp add: expand_entry_eq Cons.IH get_calls_def)
      qed
    qed
  qed
qed

lemma unique_sources_subset: "set (unique_sources seen cs) \<subseteq> set cs"
  by (induction cs arbitrary: seen) auto

lemma unique_sources_keys:
  "source_key ` set (unique_sources seen cs) = source_key ` set cs - seen"
  by (induction cs arbitrary: seen) auto

lemma unique_sources_distinct: "distinct (map source_key (unique_sources seen cs))"
proof (induction cs arbitrary: seen)
  case Nil
  show ?case by simp
next
  case (Cons c cs)
  have "source_key c \<notin> source_key ` set (unique_sources (insert (source_key c) seen) cs)"
    by (simp add: unique_sources_keys)
  with Cons.IH show ?case by simp
qed

lemma unique_sources_length:
  "length (unique_sources seen cs) = card (source_key ` set cs - seen)"
proof -
  have "length (unique_sources seen cs) = length (map source_key (unique_sources seen cs))"
    by simp
  also have "\<dots> = card (set (map source_key (unique_sources seen cs)))"
    using unique_sources_distinct by (metis distinct_card)
  also have "\<dots> = card (source_key ` set cs - seen)"
    by (simp add: unique_sources_keys)
  finally show ?thesis .
qed

lemma py_take_noop: "length xs \<le> nat n \<Longrightarrow> py_take n xs = xs"
  by (cases "0 \<le> n") (simp_all add: py_take_def)

lemma expand_context_eq:
  "expand_context_for_results w cands n =
     (map (expanded w) (take (nat n) (unique_sources {} cands)),
      w\<lparr>calls := calls w @ get_calls (take (nat n) (unique_sources {} cands))\<rparr>)"
proof (cases "cands = []")
  case True
  then show ?thesis by (simp add: expand_context_for_results_def get_calls_def)
next
  case False
  have "py_take n (map (expanded w) (take (nat n) (unique_sources {} cands)))
          = map (expanded w) (take (nat n) (unique_sources {} cands))"
    by (rule py_take_noop) simp
  with False show ?thesis
    by (simp add: expand_context_for_results_def expand_loop_eq del: length_map length_take)
qed

section \<open>The enhanced query\<close>

lemma hit_of_calls [simp]: "hit_of (w\<lparr>calls := x\<rparr>) qv = hit_of w qv"
  by (rule ext) (simp add: hit_of_def)

lemma ranked_calls [simp]: "ranked (w\<lparr>calls := x\<rparr>) qv = ranked w qv"
  by (simp add: ranked_def)

lemma perform_enhanced_ok:
  assumes "is_initialized w" "fault_encode w = None" "fault_query w = None"
  shows "perform_enhanced_rag_query w q n =
     (Inr (map (format_result \<circ> expanded w) (selected w q n)),
      w\<lparr>calls := calls w @ [Encode [strip q], StoreQuery (n * 2)] @ get_calls (selected w q n)\<rparr>)"
proof -
  let ?sel = "selected w q n"
  let ?fr = "map (format_result \<circ> expanded w) ?sel"
  have "length ?fr \<le> nat n"
    by (simp add: selected_def)
  then have pt: "py_take n ?fr = ?fr"
    by (rule py_take_noop)
  have enc: "model_encode w (strip q)
      = (Inr (embed w (strip q)), w\<lparr>calls := calls w @ [Encode [strip q]]\<rparr>)"
    using assms by (simp add: model_encode_def)
  have qry: "collection_query (w\<lparr>calls := calls w @ [Encode [strip q]]\<rparr>) (embed w (strip q)) (n * 2)
      = (Inr (fetched w q n), w\<lparr>calls := calls w @ [Encode [strip q], StoreQuery (n * 2)]\<rparr>)"
    using assms by (simp add: collection_query_def fetched_def)
  have exp: "expand_context_for_results (w\<lparr>calls := calls w @ [Encode [strip q], StoreQuery (n * 2)]\<rparr>)
       (fetched w q n) n
      = (map (expanded w) ?sel,
         w\<lparr>calls := calls w @ [Encode [strip q], StoreQuery (n * 2)] @ get_calls ?sel\<rparr>)"
    by (simp add: expand_context_eq selected_def)
  show ?thesis
    using assms(1)
    by (simp add: perform_enhanced_rag_query_def enc qry exp pt Let_def del: length_map)
qed

lemma perform_enhanced_Inr:
  assumes "perform_enhanced_rag_query w q n = (Inr rs, w')"
  shows "is_initialized w \<and> fault_encode w = None \<and> fault_query w = None"
proof -
  have i: "is_initialized w"
    using assms by (auto simp: perform_enhanced_rag_query_def split: if_splits)
  have e: "fault_encode w = None"
  proof (cases "fault_encode w")
    case None
    then show ?thesis .
  next
    case (Some m)
    with assms i show ?thesis
      by (simp add: perform_enhanced_rag_query_def model_encode_def)
  qed
  have "fault_query w = None"
  proof (cases "fault_query w")
    case None
    then show ?thesis .
  next
    case (Some m)
    with assms i e show ?thesis
      by (simp add: perform_enhanced_rag_query_def model_encode_def collection_query_def)
  qed
  with i e show ?thesis by simp
qed

lemma perform_enhanced_results:
  assumes "perform_enhanced_rag_query w q n = (Inr rs, w')"
  shows "rs = map (format_result \<circ> expanded w) (selected w q n)"
proof -
  from perform_enhanced_Inr [OF assms]
  have "perform_enhanced_rag_query w q n =
     (Inr (map (format_result \<circ> expanded w) (selected w q n)),
      w\<lparr>calls := calls w @ [Encode [strip q], StoreQuery (n * 2)] @ get_calls (selected w q n)\<rparr>)"
    by (intro perform_enhanced_ok) simp_all
  with assms show ?thesis by simp
qed

section \<open>Evaluation of the model on concrete data\<close>

lemma str_of_int_small:
  "str_of_int 0 = ''0''" "str_of_int 1 = ''1''" "str_of_int 2 = ''2''" "str_of_int 3 = ''3''"
  by code_simp+

lemma str_of_nat_small:
  "str_of_nat 0 = ''0''" "str_of_nat (Suc 0) = ''1''" "str_of_nat 2 = ''2''" "str_of_nat 3 = ''3''"
  by code_simp+

lemmas retrieval_defs =
  perform_enhanced_rag_query_def model_encode_def collection_query_def ranked_def hit_of_def
  expand_context_for_results_def source_key_def md_get_default_def md_get_def
  expand_entry_def collection_get_def is_full_entry_of_def py_take_def Let_def
  format_result_def strip_def py_isspace_def

lemmas example_defs =
  base_world_def crowded_store_def mk_item_def squared_l2_def str_of_int_small str_of_nat_small

section \<open>Claims about the result records and the legacy indexer\<close>

text \<open>
  C10: in the legacy server \<open>update_journal_index\<close> returns \<open>success = False\<close> with an
  import-error message for every value of \<open>full_reindex\<close>, because the name
  \<open>create_semantic_chunks\<close> is not among the names that \<open>rag_search\<close> defines; the world
  is returned as it was, so nothing is loaded, chunked, embedded or upserted.
\<close>

theorem legacy_update_import_error:
  "''create_semantic_chunks'' \<notin> set rag_search_names
   \<and> legacy_update_journal_index w full_reindex =
       ((False, ''Error importing from rag_search.py: cannot import name ''
                @ quoted ''create_semantic_chunks'' @ '' from '' @ quoted ''rag_search''
                @ '' ('' @ rag_search_path w @ '')''), w)"
  by (simp add: legacy_update_journal_index_def import_from_rag_search_def rag_search_names_def)

theorem legacy_update_import_error_witness:
  "fst (fst (legacy_update_journal_index base_world True)) = False
   \<and> fst (fst (legacy_update_journal_index base_world False)) = False
   \<and> calls (snd (legacy_update_journal_index base_world True)) = []
   \<and> store (snd (legacy_update_journal_index base_world False)) = []"
  using legacy_update_import_error [of base_world True]
        legacy_update_import_error [of base_world False]
  by (simp add: base_world_def)

text \<open>
  C9, as the code has it: every result of a successful search carries \<open>source\<close>
  (metadata \<open>source\<close>, else \<open>N/A\<close>), \<open>date\<close> (metadata \<open>date\<close>, else metadata \<open>created\<close>, else
  the sentinel \<open>Unknown date\<close>), \<open>text\<close>, \<open>distance\<close>, \<open>chunk_type\<close> (else \<open>unknown\<close>) and a
  \<open>context_note\<close> that reads \<open>Full entry from <source>\<close> when the chunk type is
  \<open>full_entry\<close> and \<open>Excerpt from <source>\<close> otherwise; the \<open>i\<close>-th result is built from the
  \<open>i\<close>-th emitted candidate after expansion.
\<close>

theorem result_fields:
  assumes "perform_enhanced_rag_query w q n = (Inr rs, w')"
  shows "length rs = length (selected w q n)
    \<and> (\<forall>i < length rs.
         let h = expanded w (selected w q n ! i); m = hit_meta h; r = rs ! i
         in r_source r = (case md_get m ''source'' of Some s \<Rightarrow> s | None \<Rightarrow> MStr ''N/A'')
          \<and> r_date r = (case md_get m ''date'' of
                          Some d \<Rightarrow> d
                        | None \<Rightarrow> (case md_get m ''created'' of
                                     Some c \<Rightarrow> c | None \<Rightarrow> MStr ''Unknown date''))
          \<and> r_text r = hit_document h
          \<and> r_distance r = hit_distance h
          \<and> r_chunk_type r = (case md_get m ''chunk_type'' of
                                Some t \<Rightarrow> t | None \<Rightarrow> MStr ''unknown'')
          \<and> r_context_note r =
              (if r_chunk_type r = MStr ''full_entry''
               then ''Full entry from '' @ py_str (r_source r)
               else ''Excerpt from '' @ py_str (r_source r)))"
proof -
  have rs: "rs = map (format_result \<circ> expanded w) (selected w q n)"
    using assms by (rule perform_enhanced_results)
  show ?thesis
    unfolding rs
    by (simp add: format_result_def md_get_default_def md_get_def Let_def
             split: option.splits)
qed

lemma crowded_search:
  "fst (perform_enhanced_rag_query crowded_world ''topic'' 2) =
     Inr [\<lparr>r_source = MStr ''a.md'', r_date = MStr ''Unknown date'', r_text = ''a0'',
           r_distance = 0, r_chunk_type = MStr ''partial_entry'',
           r_context_note = ''Excerpt from a.md''\<rparr>]"
  by (simp add: crowded_world_def retrieval_defs example_defs)

theorem result_fields_witness:
  "perform_enhanced_rag_query crowded_world ''topic'' 2 =
     (Inr [\<lparr>r_source = MStr ''a.md'', r_date = MStr ''Unknown date'', r_text = ''a0'',
            r_distance = 0, r_chunk_type = MStr ''partial_entry'',
            r_context_note = ''Excerpt from a.md''\<rparr>],
      snd (perform_enhanced_rag_query crowded_world ''topic'' 2))
   \<and> length (selected crowded_world ''topic'' 2) = 1"
proof -
  have h: "perform_enhanced_rag_query crowded_world ''topic'' 2 =
     (Inr [\<lparr>r_source = MStr ''a.md'', r_date = MStr ''Unknown date'', r_text = ''a0'',
            r_distance = 0, r_chunk_type = MStr ''partial_entry'',
            r_context_note = ''Excerpt from a.md''\<rparr>],
      snd (perform_enhanced_rag_query crowded_world ''topic'' 2))"
    using crowded_search by (metis prod.collapse)
  from result_fields [OF h] have "length (selected crowded_world ''topic'' 2) = 1"
    by simp
  with h show ?thesis by simp
qed

text \<open>
  C9 as stated fails on the sentinel: a record with neither \<open>date\<close> nor \<open>created\<close> in
  its metadata is returned with the date \<open>Unknown date\<close>, not \<open>unknown\<close>.
\<close>

theorem date_sentinel_counterexample:
  "map r_date (case fst (perform_enhanced_rag_query crowded_world ''topic'' 2) of
                 Inl e \<Rightarrow> [] | Inr rs \<Rightarrow> rs) = [MStr ''Unknown date'']
   \<and> MStr ''Unknown date'' \<noteq> MStr ''unknown''"
  by (simp add: crowded_world_def retrieval_defs example_defs)

section \<open>Claims about expansion and deduplication\<close>

lemma expanded_cases:
  "expanded w c =
     (if is_partial c \<and> fault_get w = None
      then (case filter (is_full_entry_of (source_key c)) (store w) of
              [] \<Rightarrow> c
            | f # fs \<Rightarrow> \<lparr>hit_id = item_id f, hit_document = item_document f,
                         hit_meta = item_meta f, hit_distance = hit_distance c\<rparr>)
      else c)"
  by (simp add: expanded_def expand_entry_def collection_get_def is_partial_def Let_def
           split: option.splits list.splits)

lemma expanded_distance: "hit_distance (expanded w c) = hit_distance c"
  by (simp add: expanded_cases split: list.splits)

lemma expanded_found:
  assumes "is_partial c" "fault_get w = None"
      and "\<exists>f\<in>set (store w). is_full_entry_of (source_key c) f"
  shows "\<exists>f\<in>set (store w). is_full_entry_of (source_key c) f
           \<and> hit_id (expanded w c) = item_id f
           \<and> hit_document (expanded w c) = item_document f
           \<and> hit_meta (expanded w c) = item_meta f"
proof (cases "filter (is_full_entry_of (source_key c)) (store w)")
  case Nil
  with assms(3) show ?thesis by (simp add: filter_empty_conv)
next
  case (Cons f fs)
  then have "f \<in> set (filter (is_full_entry_of (source_key c)) (store w))" by simp
  then have "f \<in> set (store w)" "is_full_entry_of (source_key c) f" by simp_all
  moreover have "expanded w c = \<lparr>hit_id = item_id f, hit_document = item_document f,
                         hit_meta = item_meta f, hit_distance = hit_distance c\<rparr>"
    using assms(1,2) Cons by (simp add: expanded_cases)
  ultimately show ?thesis by auto
qed

lemma expanded_not_found:
  assumes "fault_get w \<noteq> None \<or> \<not> (\<exists>f\<in>set (store w). is_full_entry_of (source_key c) f)"
  shows "expanded w c = c"
proof (cases "fault_get w = None")
  case False
  then show ?thesis by (auto simp add: expanded_cases)
next
  case True
  with assms have "filter (is_full_entry_of (source_key c)) (store w) = []"
    by (simp add: filter_empty_conv)
  then show ?thesis by (simp add: expanded_cases)
qed

lemma expanded_not_partial: "\<not> is_partial c \<Longrightarrow> expanded w c = c"
  by (simp add: expanded_cases)

text \<open>
  C3: the entries that \<open>expand_context_for_results\<close> emits are, in order, those of the
  first \<open>n_results\<close> candidates with a new source. For each of them that is tagged
  \<open>partial_entry\<close> the store is asked once for the records of the same source tagged
  \<open>full_entry\<close>; when the call succeeds and such a record exists, the emitted id, text and
  metadata are those of such a record and the distance is the candidate's; when the call
  raises or no such record exists, the candidate is emitted unchanged. A candidate that
  is not tagged \<open>partial_entry\<close> is emitted unchanged.
\<close>

theorem partial_entries_expanded:
  assumes "expand_context_for_results w cands n = (es, w')"
  shows "length es = length (take (nat n) (unique_sources {} cands))
    \<and> calls w' = calls w @ get_calls (take (nat n) (unique_sources {} cands))
    \<and> (\<forall>i < length es.
         let c = take (nat n) (unique_sources {} cands) ! i; e = es ! i
         in hit_distance e = hit_distance c
          \<and> (is_partial c \<and> fault_get w = None
               \<and> (\<exists>f\<in>set (store w). is_full_entry_of (source_key c) f)
              \<longrightarrow> (\<exists>f\<in>set (store w). is_full_entry_of (source_key c) f
                     \<and> hit_id e = item_id f \<and> hit_document e = item_document f
                     \<and> hit_meta e = item_meta f))
          \<and> (is_partial c
               \<and> (fault_get w \<noteq> None
                    \<or> \<not> (\<exists>f\<in>set (store w). is_full_entry_of (source_key c) f))
              \<longrightarrow> e = c)
          \<and> (\<not> is_partial c \<longrightarrow> e = c))"
proof -
  let ?sel = "take (nat n) (unique_sources {} cands)"
  from assms have es: "es = map (expanded w) ?sel"
    and w': "w' = w\<lparr>calls := calls w @ get_calls ?sel\<rparr>"
    by (simp_all add: expand_context_eq)
  have len: "length es = length ?sel"
    unfolding es by simp
  have cl: "calls w' = calls w @ get_calls ?sel"
    unfolding w' by simp
  have each: "\<forall>i < length es.
         let c = ?sel ! i; e = es ! i
         in hit_distance e = hit_distance c
          \<and> (is_partial c \<and> fault_get w = None
               \<and> (\<exists>f\<in>set (store w). is_full_entry_of (source_key c) f)
              \<longrightarrow> (\<exists>f\<in>set (store w). is_full_entry_of (source_key c) f
                     \<and> hit_id e = item_id f \<and> hit_document e = item_document f
                     \<and> hit_meta e = item_meta f))
          \<and> (is_partial c
               \<and> (fault_get w \<noteq> None
                    \<or> \<not> (\<exists>f\<in>set (store w). is_full_entry_of (source_key c) f))
              \<longrightarrow> e = c)
          \<and> (\<not> is_partial c \<longrightarrow> e = c)"
  proof (intro allI impI)
    fix i
    assume "i < length es"
    then have i: "i < length ?sel" using len by simp
    then have e: "es ! i = expanded w (?sel ! i)"
      unfolding es by (rule nth_map)
    show "let c = ?sel ! i; e = es ! i
         in hit_distance e = hit_distance c
          \<and> (is_partial c \<and> fault_get w = None
               \<and> (\<exists>f\<in>set (store w). is_full_entry_of (source_key c) f)
              \<longrightarrow> (\<exists>f\<in>set (store w). is_full_entry_of (source_key c) f
                     \<and> hit_id e = item_id f \<and> hit_document e = item_document f
                     \<and> hit_meta e = item_meta f))
          \<and> (is_partial c
               \<and> (fault_get w \<noteq> None
                    \<or> \<not> (\<exists>f\<in>set (store w). is_full_entry_of (source_key c) f))
              \<longrightarrow> e = c)
          \<and> (\<not> is_partial c \<longrightarrow> e = c)"
      unfolding Let_def e
      using expanded_distance [of w "?sel ! i"] expanded_found [of "?sel ! i" w]
            expanded_not_found [of w "?sel ! i"] expanded_not_partial [of "?sel ! i" w]
      by blast
  qed
  from len cl each show ?thesis by blast
qed

theorem partial_entries_expanded_witness:
  "expand_context_for_results expanding_world (fetched expanding_world ''topic'' 1) 1 =
     ([\<lparr>hit_id = ''b.md_0'', hit_document = ''whole b'',
        hit_meta = [(''source'', MStr ''b.md''), (''chunk_index'', MInt 0),
                    (''chunk_type'', MStr ''full_entry'')],
        hit_distance = 0\<rparr>],
      snd (expand_context_for_results expanding_world (fetched expanding_world ''topic'' 1) 1))
   \<and> calls (snd (expand_context_for_results expanding_world
                    (fetched expanding_world ''topic'' 1) 1)) = [StoreGet (MStr ''b.md'')]"
proof -
  let ?run = "expand_context_for_results expanding_world (fetched expanding_world ''topic'' 1) 1"
  have f: "fst ?run =
     [\<lparr>hit_id = ''b.md_0'', hit_document = ''whole b'',
        hit_meta = [(''source'', MStr ''b.md''), (''chunk_index'', MInt 0),
                    (''chunk_type'', MStr ''full_entry'')],
        hit_distance = 0\<rparr>]"
    by (simp add: fetched_def expanding_world_def expanding_store_def retrieval_defs example_defs)
  then have h: "?run =
     ([\<lparr>hit_id = ''b.md_0'', hit_document = ''whole b'',
        hit_meta = [(''source'', MStr ''b.md''), (''chunk_index'', MInt 0),
                    (''chunk_type'', MStr ''full_entry'')],
        hit_distance = 0\<rparr>], snd ?run)"
    by (metis prod.collapse)
  have sel: "get_calls (take (nat 1) (unique_sources {} (fetched expanding_world ''topic'' 1)))
               = [StoreGet (MStr ''b.md'')]"
    by (simp add: get_calls_def is_partial_def fetched_def expanding_world_def
          expanding_store_def retrieval_defs example_defs)
  have "calls expanding_world = []"
    by (simp add: expanding_world_def base_world_def)
  with partial_entries_expanded [OF h] sel
  have "calls (snd ?run) = [StoreGet (MStr ''b.md'')]"
    by simp
  with h show ?thesis by simp
qed

lemma r_source_expanded:
  assumes "md_get (hit_meta c) ''source'' \<noteq> None"
  shows "r_source (format_result (expanded w c)) = source_key c"
proof (cases "is_partial c \<and> fault_get w = None
              \<and> (\<exists>f\<in>set (store w). is_full_entry_of (source_key c) f)")
  case True
  then obtain f where "is_full_entry_of (source_key c) f"
    and "hit_meta (expanded w c) = item_meta f"
    using expanded_found [of c w] by blast
  then show ?thesis
    by (simp add: format_result_def is_full_entry_of_def md_get_def md_get_default_def Let_def)
next
  case False
  then have "expanded w c = c"
    using expanded_not_found [of w c] expanded_not_partial [of c w] by blast
  with assms show ?thesis
    by (auto simp add: format_result_def source_key_def md_get_def md_get_default_def Let_def)
qed

lemma selected_subset: "set (selected w q n) \<subseteq> set (fetched w q n)"
  unfolding selected_def
  using set_take_subset unique_sources_subset by fastforce

lemma selected_distinct: "distinct (map source_key (selected w q n))"
  unfolding selected_def
  by (simp add: take_map [symmetric] distinct_take unique_sources_distinct)

text \<open>
  How many results a successful search returns: as many as there are distinct source
  keys among the candidates it fetched, and at most \<open>n_results\<close>.
\<close>

lemma search_count_fetched:
  assumes "perform_enhanced_rag_query w q n = (Inr rs, w')"
  shows "length rs = min (nat n) (card (source_key ` set (fetched w q n)))"
proof -
  have "rs = map (format_result \<circ> expanded w) (selected w q n)"
    using assms by (rule perform_enhanced_results)
  then show ?thesis
    by (simp add: selected_def unique_sources_length min.commute)
qed

lemma fetched_from_store:
  assumes "c \<in> set (fetched w q n)"
  shows "\<exists>it\<in>set (store w). hit_meta c = item_meta it"
proof -
  from assms have "c \<in> set (ranked w (embed w (strip q)))"
    unfolding fetched_def by (rule in_set_takeD)
  then have "c \<in> hit_of w (embed w (strip q)) ` set (store w)"
    by (simp add: ranked_def)
  then show ?thesis
    by (auto simp add: hit_of_def)
qed

lemma selected_sources:
  assumes "\<forall>it\<in>set (store w). md_get (item_meta it) ''source'' \<noteq> None"
  shows "map (r_source \<circ> format_result \<circ> expanded w) (selected w q n)
           = map source_key (selected w q n)"
proof -
  have "r_source (format_result (expanded w c)) = source_key c"
    if "c \<in> set (selected w q n)" for c
  proof -
    from that have "c \<in> set (fetched w q n)"
      using selected_subset by blast
    then obtain it where "it \<in> set (store w)" "hit_meta c = item_meta it"
      using fetched_from_store by blast
    with assms have "md_get (hit_meta c) ''source'' \<noteq> None"
      by simp
    then show ?thesis
      by (rule r_source_expanded)
  qed
  then show ?thesis by simp
qed

lemma selected_in_store_sources: "source_key ` set (selected w q n) \<subseteq> store_sources w"
proof
  fix s
  assume "s \<in> source_key ` set (selected w q n)"
  then obtain c where c: "c \<in> set (selected w q n)" and s: "s = source_key c"
    by blast
  from c have "c \<in> set (fetched w q n)"
    using selected_subset by blast
  then obtain it where "it \<in> set (store w)" "hit_meta c = item_meta it"
    using fetched_from_store by blast
  then show "s \<in> store_sources w"
    unfolding s store_sources_def source_key_def by (auto intro!: image_eqI)
qed

text \<open>
  C4: in a store in which every record has a \<open>source\<close>, as every record written by
  \<open>index_chunks\<close> from the documents of the two loaders has (lemma
  \<open>update_journal_index_keeps_sources\<close> below), no two results of a successful search have
  the same source value, for every query text and every requested count; each
  result's source is the source of a record of the store.
\<close>

theorem results_distinct_sources:
  assumes "perform_enhanced_rag_query w q n = (Inr rs, w')"
      and "\<forall>it\<in>set (store w). md_get (item_meta it) ''source'' \<noteq> None"
  shows "distinct (map r_source rs) \<and> set (map r_source rs) \<subseteq> store_sources w"
proof -
  have rs: "rs = map (format_result \<circ> expanded w) (selected w q n)"
    using assms(1) by (rule perform_enhanced_results)
  have eq: "map r_source rs = map source_key (selected w q n)"
    unfolding rs using selected_sources [OF assms(2), of q n] by simp
  have "distinct (map r_source rs)"
    unfolding eq by (rule selected_distinct)
  moreover have "set (map r_source rs) \<subseteq> store_sources w"
    unfolding eq using selected_in_store_sources [of w q n] by simp
  ultimately show ?thesis by (rule conjI)
qed

theorem results_distinct_sources_witness:
  "perform_enhanced_rag_query expanding_world ''topic'' 2 =
     (Inr [\<lparr>r_source = MStr ''b.md'', r_date = MStr ''Unknown date'', r_text = ''whole b'',
            r_distance = 0, r_chunk_type = MStr ''full_entry'',
            r_context_note = ''Full entry from b.md''\<rparr>,
           \<lparr>r_source = MStr ''a.md'', r_date = MStr ''Unknown date'', r_text = ''whole a'',
            r_distance = 1, r_chunk_type = MStr ''full_entry'',
            r_context_note = ''Full entry from a.md''\<rparr>],
      snd (perform_enhanced_rag_query expanding_world ''topic'' 2))
   \<and> map (\<lambda>it. md_get (item_meta it) ''source'') (store expanding_world)
       = [Some (MStr ''b.md''), Some (MStr ''a.md''), Some (MStr ''b.md'')]
   \<and> distinct [MStr ''b.md'', MStr ''a.md'']
   \<and> {MStr ''b.md'', MStr ''a.md''} \<subseteq> store_sources expanding_world"
proof -
  let ?run = "perform_enhanced_rag_query expanding_world ''topic'' 2"
  have "fst ?run =
     Inr [\<lparr>r_source = MStr ''b.md'', r_date = MStr ''Unknown date'', r_text = ''whole b'',
            r_distance = 0, r_chunk_type = MStr ''full_entry'',
            r_context_note = ''Full entry from b.md''\<rparr>,
           \<lparr>r_source = MStr ''a.md'', r_date = MStr ''Unknown date'', r_text = ''whole a'',
            r_distance = 1, r_chunk_type = MStr ''full_entry'',
            r_context_note = ''Full entry from a.md''\<rparr>]"
    by (simp add: expanding_world_def expanding_store_def retrieval_defs example_defs)
  then have h: "?run =
     (Inr [\<lparr>r_source = MStr ''b.md'', r_date = MStr ''Unknown date'', r_text = ''whole b'',
            r_distance = 0, r_chunk_type = MStr ''full_entry'',
            r_context_note = ''Full entry from b.md''\<rparr>,
           \<lparr>r_source = MStr ''a.md'', r_date = MStr ''Unknown date'', r_text = ''whole a'',
            r_distance = 1, r_chunk_type = MStr ''full_entry'',
            r_context_note = ''Full entry from a.md''\<rparr>], snd ?run)"
    by (metis prod.collapse)
  have srcs: "map (\<lambda>it. md_get (item_meta it) ''source'') (store expanding_world)
       = [Some (MStr ''b.md''), Some (MStr ''a.md''), Some (MStr ''b.md'')]"
    by (simp add: expanding_world_def expanding_store_def retrieval_defs example_defs)
  have all: "\<forall>it\<in>set (store expanding_world). md_get (item_meta it) ''source'' \<noteq> None"
    by (simp add: expanding_world_def expanding_store_def retrieval_defs example_defs)
  from results_distinct_sources [OF h all]
  have "distinct [MStr ''b.md'', MStr ''a.md'']
        \<and> {MStr ''b.md'', MStr ''a.md''} \<subseteq> store_sources expanding_world"
    by simp
  with h srcs show ?thesis by simp
qed

section \<open>Claims about the result count and the query check\<close>

lemmas query_journal_defs =
  query_journal_def nonempty_str_def positive_int_def DEFAULT_N_RESULTS_def

text \<open>
  C1 at a store in which four chunks of one source rank first: a search for two
  results fetches four candidates, all of source \<open>a.md\<close>, and answers with one result,
  although the store holds two distinct sources, so that \<open>min(k, distinct sources)\<close> is two.
\<close>

theorem crowded_search_undersupplies:
  "(case fst (query_journal crowded_world [(''query'', JStr ''topic''), (''n_results'', JInt 2)]) of
      RpcContent rs \<Rightarrow> map r_source rs
    | RpcError code msg \<Rightarrow> []) = [MStr ''a.md'']
   \<and> store_sources crowded_world = {MStr ''a.md'', MStr ''b.md''}
   \<and> min 2 (card (store_sources crowded_world)) = 2"
proof -
  have "(case fst (query_journal crowded_world [(''query'', JStr ''topic''), (''n_results'', JInt 2)]) of
      RpcContent rs \<Rightarrow> map r_source rs
    | RpcError code msg \<Rightarrow> []) = [MStr ''a.md'']"
    by (simp add: query_journal_defs crowded_world_def retrieval_defs example_defs)
  moreover have s: "store_sources crowded_world = {MStr ''a.md'', MStr ''b.md''}"
    by (auto simp add: store_sources_def crowded_world_def retrieval_defs example_defs)
  moreover have "min 2 (card (store_sources crowded_world)) = 2"
    unfolding s by simp
  ultimately show ?thesis by simp
qed

theorem crowded_search_undersupplies_witness:
  "length (case fst (query_journal crowded_world
                       [(''query'', JStr ''topic''), (''n_results'', JInt 2)]) of
             RpcContent rs \<Rightarrow> map r_source rs
           | RpcError code msg \<Rightarrow> []) = 1
   \<and> card (store_sources crowded_world) = 2"
  using crowded_search_undersupplies by simp

text \<open>
  A query that is missing, not a string, or the empty string is rejected as invalid
  parameters, and the world is returned as it was: nothing is embedded and the store is
  not contacted.
\<close>

lemma empty_query_rejected:
  assumes "nonempty_str (case map_of arguments ''query'' of None \<Rightarrow> JNull | Some v \<Rightarrow> v) = None"
  shows "query_journal w arguments =
     (RpcError (- 32602) ''Invalid params: 'query' argument is missing or not a string.'', w)"
  using assms by (simp add: query_journal_def Let_def)

text \<open>
  C6 at a query of three spaces: the check of \<open>main\<close> only rejects the empty string, so
  the stripped (empty) text is embedded and the store is queried.
\<close>

theorem whitespace_query_reaches_store:
  "strip ''   '' = []
   \<and> calls (snd (query_journal crowded_world
                    [(''query'', JStr ''   ''), (''n_results'', JInt 1)]))
       = [Encode [[]], StoreQuery 2, StoreGet (MStr ''a.md'')]
   \<and> (case fst (query_journal crowded_world
                    [(''query'', JStr ''   ''), (''n_results'', JInt 1)]) of
         RpcContent rs \<Rightarrow> map r_text rs
       | RpcError code msg \<Rightarrow> []) = [''a0'']"
  by (simp add: query_journal_defs crowded_world_def retrieval_defs example_defs)

theorem whitespace_query_reaches_store_witness:
  "Encode [[]] \<in> set (calls (snd (query_journal crowded_world
                                     [(''query'', JStr ''   ''), (''n_results'', JInt 1)])))
   \<and> StoreQuery 2 \<in> set (calls (snd (query_journal crowded_world
                                       [(''query'', JStr ''   ''), (''n_results'', JInt 1)])))"
  using whitespace_query_reaches_store by simp

section \<open>Loading, chunking and indexing\<close>

lemma parsed_Nil [simp]: "parsed [] = []"
  by (simp add: parsed_def map_filter_simps)

lemma parsed_Cons:
  "parsed (f # fs) =
     (case file_parse f of None \<Rightarrow> parsed fs | Some p \<Rightarrow> with_source f p # parsed fs)"
  by (simp add: parsed_def map_filter_simps split: option.splits)

lemma load_all_loop_eq:
  "load_all_loop fs documents w =
     (documents @ parsed (filter (\<lambda>f. endswith (file_name f) ''.md'') fs),
      w\<lparr>calls := calls w @ map (\<lambda>f. FrontmatterLoad (file_rel_path f))
                              (filter (\<lambda>f. endswith (file_name f) ''.md'') fs)\<rparr>)"
proof (induction fs arbitrary: documents w)
  case Nil
  show ?case by simp
next
  case (Cons f fs)
  show ?case
    by (cases "file_parse f") (simp_all add: Cons.IH parsed_Cons Let_def)
qed

lemma load_since_loop_eq:
  "load_since_loop t fs documents w =
     (documents @ parsed (filter (\<lambda>f. endswith (file_name f) ''.md'' \<and> t < file_mtime f) fs),
      w\<lparr>calls := calls w @ map (\<lambda>f. FrontmatterLoad (file_rel_path f))
                  (filter (\<lambda>f. endswith (file_name f) ''.md'' \<and> t < file_mtime f) fs)\<rparr>)"
proof (induction fs arbitrary: documents w)
  case Nil
  show ?case by simp
next
  case (Cons f fs)
  show ?case
    by (cases "file_parse f") (simp_all add: Cons.IH parsed_Cons Let_def)
qed

lemma load_markdown_docs_eq:
  "load_markdown_docs w =
     (parsed (selected_files w True),
      w\<lparr>calls := calls w @ map (\<lambda>f. FrontmatterLoad (file_rel_path f)) (selected_files w True)\<rparr>)"
  by (cases "journal w")
     (simp_all add: load_markdown_docs_def load_all_loop_eq selected_files_def journal_files_def)

lemma load_markdown_docs_since_eq:
  "load_markdown_docs_since w (get_last_indexed_time w) =
     (parsed (selected_files w False),
      w\<lparr>calls := calls w @ map (\<lambda>f. FrontmatterLoad (file_rel_path f)) (selected_files w False)\<rparr>)"
  by (cases "journal w")
     (simp_all add: load_markdown_docs_since_def load_since_loop_eq selected_files_def
        journal_files_def)

lemma chunks_of_doc_calls [simp]: "chunks_of_doc (w\<lparr>calls := x\<rparr>) = chunks_of_doc w"
  by (rule ext) (simp add: chunks_of_doc_def)

lemma split_docs_loop_eq:
  "split_docs_loop docs all_chunks w =
     (all_chunks @ concat (map (chunks_of_doc w) docs),
      w\<lparr>calls := calls w @ map (\<lambda>d. SplitText (post_content d)) docs\<rparr>)"
  by (induction docs arbitrary: all_chunks w) simp_all

lemma split_docs_eq:
  "split_docs w docs =
     (concat (map (chunks_of_doc w) docs),
      w\<lparr>calls := calls w @ map (\<lambda>d. SplitText (post_content d)) docs\<rparr>)"
  by (simp add: split_docs_def split_docs_loop_eq)

lemma import_current_ok:
  "import_from_rag_search w
     [''load_markdown_docs'', ''split_docs'', ''initialize_embedding_model'',
      ''initialize_vector_store'', ''index_chunks''] = None"
  by (simp add: import_from_rag_search_def rag_search_names_def)

lemma update_journal_index_eq: "update_journal_index w full = index_journal w full"
  by (simp add: update_journal_index_def import_current_ok)

lemma get_last_indexed_time_calls [simp]:
  "get_last_indexed_time (w\<lparr>calls := x\<rparr>) = get_last_indexed_time w"
  by (simp add: get_last_indexed_time_def)

lemma selected_files_calls [simp]: "selected_files (w\<lparr>calls := x\<rparr>) full = selected_files w full"
  by (simp add: selected_files_def journal_files_def)

lemma run_chunks_calls [simp]: "run_chunks (w\<lparr>calls := x\<rparr>) full = run_chunks w full"
  by (simp add: run_chunks_def)

lemma item_of_chunk_calls [simp]: "item_of_chunk (w\<lparr>calls := x\<rparr>) = item_of_chunk w"
  by (rule ext) (simp add: item_of_chunk_def)

text \<open>The five ways a run of the indexer ends.\<close>

lemma index_journal_cases:
  "index_journal w full =
     (if \<not> full \<and> parsed (selected_files w full) = [] then
        ((True, ''No new or modified journal entries found.''),
         w\<lparr>calls := calls w @ map (\<lambda>f. FrontmatterLoad (file_rel_path f)) (selected_files w full)\<rparr>)
      else if run_chunks w full = [] then
        ((True, ''No chunks generated from ''
                  @ str_of_nat (length (parsed (selected_files w full))) @ '' files.''),
         w\<lparr>calls := calls w @ prep_calls w full\<rparr>)
      else if \<not> model_available w \<or> \<not> store_available w then
        ((False, ''Failed to initialize embedding model or vector store.''),
         w\<lparr>calls := calls w @ prep_calls w full\<rparr>)
      else if fault_encode w \<noteq> None then
        ((False, ''Indexing failed.''),
         w\<lparr>calls := calls w @ prep_calls w full @ [Encode (map chunk_text (run_chunks w full))]\<rparr>)
      else if fault_upsert w \<noteq> None then
        ((False, ''Indexing failed.''),
         w\<lparr>calls := calls w @ prep_calls w full
                      @ [Encode (map chunk_text (run_chunks w full)),
                         StoreUpsert (map chunk_id (run_chunks w full))]\<rparr>)
      else
        ((True, ''Successfully indexed '' @ str_of_nat (length (run_chunks w full))
                  @ '' chunks from '' @ str_of_nat (length (parsed (selected_files w full)))
                  @ '' files.''),
         w\<lparr>calls := calls w @ prep_calls w full
                      @ [Encode (map chunk_text (run_chunks w full)),
                         StoreUpsert (map chunk_id (run_chunks w full))],
           store := foldl (\<lambda>st c. upsert_item (item_of_chunk w c) st) (store w) (run_chunks w full),
           watermark := (case fault_write_time w of
                           None \<Rightarrow> WmStamp (clock w) | Some m \<Rightarrow> watermark w)\<rparr>))"
proof -
  let ?docs = "parsed (selected_files w full)"
  let ?loads = "map (\<lambda>f. FrontmatterLoad (file_rel_path f)) (selected_files w full)"
  let ?chunks = "run_chunks w full"
  let ?w2 = "w\<lparr>calls := calls w @ prep_calls w full\<rparr>"
  have ij: "index_journal w full =
     (if \<not> full \<and> ?docs = []
      then ((True, ''No new or modified journal entries found.''), w\<lparr>calls := calls w @ ?loads\<rparr>)
      else if ?chunks = []
      then ((True, ''No chunks generated from '' @ str_of_nat (length ?docs) @ '' files.''), ?w2)
      else if \<not> model_available w \<or> \<not> store_available w
      then ((False, ''Failed to initialize embedding model or vector store.''), ?w2)
      else (case index_chunks ?w2 True ?chunks True of
              (indexing_successful, w3) \<Rightarrow>
                if indexing_successful
                then (case update_last_indexed_time w3 of
                        (written, w4) \<Rightarrow>
                          ((True, ''Successfully indexed '' @ str_of_nat (length ?chunks)
                                  @ '' chunks from '' @ str_of_nat (length ?docs)
                                  @ '' files.''), w4))
                else ((False, ''Indexing failed.''), w3)))"
  proof (cases full)
    case True
    then show ?thesis
      by (simp add: index_journal_def load_markdown_docs_eq split_docs_eq run_chunks_def
            prep_calls_def split: prod.splits)
  next
    case False
    then show ?thesis
      by (simp add: index_journal_def load_markdown_docs_since_eq split_docs_eq run_chunks_def
            prep_calls_def split: prod.splits)
  qed
  show ?thesis
  proof (cases "\<not> full \<and> ?docs = [] \<or> ?chunks = []
                \<or> \<not> model_available w \<or> \<not> store_available w")
    case True
    then show ?thesis unfolding ij by auto
  next
    case False
    then have ne: "?chunks \<noteq> []" by simp
    show ?thesis
    proof (cases "fault_encode w")
      case (Some m)
      with False ne show ?thesis
        unfolding ij by (simp add: index_chunks_def Let_def)
    next
      case None
      show ?thesis
      proof (cases "fault_upsert w")
        case (Some m)
        with None False ne show ?thesis
          unfolding ij by (simp add: index_chunks_def Let_def)
      next
        case upsert_ok: None
        show ?thesis
        proof (cases "fault_write_time w")
          case (Some m)
          with None upsert_ok False ne show ?thesis
            unfolding ij by (simp add: index_chunks_def update_last_indexed_time_def Let_def)
        next
          case write_ok: None
          with None upsert_ok False ne show ?thesis
            unfolding ij by (simp add: index_chunks_def update_last_indexed_time_def Let_def)
        qed
      qed
    qed
  qed
qed

section \<open>Every record the indexer writes has a source\<close>

lemma with_source_has_source: "map_of (post_metadata (with_source f p)) ''source'' \<noteq> None"
  by (simp add: with_source_def update_conv')

lemma parsed_has_source:
  "d \<in> set (parsed fs) \<Longrightarrow> map_of (post_metadata d) ''source'' \<noteq> None"
proof (induction fs)
  case Nil
  then show ?case by simp
next
  case (Cons f fs)
  show ?case
  proof (cases "file_parse f")
    case None
    with Cons show ?thesis by (simp add: parsed_Cons)
  next
    case (Some p)
    with Cons.prems have "d = with_source f p \<or> d \<in> set (parsed fs)"
      by (simp add: parsed_Cons)
    then show ?thesis
      using Cons.IH with_source_has_source [of f p] by blast
  qed
qed

lemma make_chunk_source:
  "md_get (chunk_metadata (make_chunk doc i p)) ''source'' = map_of (post_metadata doc) ''source''"
  by (simp add: make_chunk_def md_get_def Let_def update_conv')

lemma chunks_of_doc_source:
  assumes "c \<in> set (chunks_of_doc w doc)"
  shows "md_get (chunk_metadata c) ''source'' = map_of (post_metadata doc) ''source''"
  using assms by (auto simp add: chunks_of_doc_def make_chunk_source)

lemma run_chunks_have_source:
  assumes "c \<in> set (run_chunks w full)"
  shows "md_get (chunk_metadata c) ''source'' \<noteq> None"
proof -
  from assms obtain d where "d \<in> set (parsed (selected_files w full))"
    and "c \<in> set (chunks_of_doc w d)"
    by (auto simp add: run_chunks_def)
  then show ?thesis
    using chunks_of_doc_source parsed_has_source by metis
qed

lemma set_upsert_item: "set (upsert_item it st) \<subseteq> insert it (set st)"
  by (induction st) auto

lemma upserts_keep_sources:
  assumes "\<forall>it\<in>set st. md_get (item_meta it) ''source'' \<noteq> None"
      and "\<forall>c\<in>set cs. md_get (chunk_metadata c) ''source'' \<noteq> None"
  shows "\<forall>it\<in>set (foldl (\<lambda>st c. upsert_item (item_of_chunk w c) st) st cs).
           md_get (item_meta it) ''source'' \<noteq> None"
  using assms
proof (induction cs arbitrary: st)
  case Nil
  then show ?case by simp
next
  case (Cons c cs)
  have "\<forall>it\<in>set (upsert_item (item_of_chunk w c) st). md_get (item_meta it) ''source'' \<noteq> None"
  proof
    fix it
    assume "it \<in> set (upsert_item (item_of_chunk w c) st)"
    then have "it = item_of_chunk w c \<or> it \<in> set st"
      using set_upsert_item by fastforce
    with Cons.prems show "md_get (item_meta it) ''source'' \<noteq> None"
      by (auto simp add: item_of_chunk_def)
  qed
  with Cons.prems(2) have
    "\<forall>it\<in>set (foldl (\<lambda>st c. upsert_item (item_of_chunk w c) st)
                    (upsert_item (item_of_chunk w c) st) cs).
           md_get (item_meta it) ''source'' \<noteq> None"
    by (intro Cons.IH) simp_all
  then show ?case by simp
qed

text \<open>
  A run of the indexer, successful or not, leaves a store in which every record has a
  source in one; the empty store is such a store.
\<close>

lemma update_journal_index_keeps_sources:
  assumes "\<forall>it\<in>set (store w). md_get (item_meta it) ''source'' \<noteq> None"
  shows "\<forall>it\<in>set (store (snd (update_journal_index w full))).
           md_get (item_meta it) ''source'' \<noteq> None"
proof -
  have "\<forall>it\<in>set (foldl (\<lambda>st c. upsert_item (item_of_chunk w c) st) (store w) (run_chunks w full)).
           md_get (item_meta it) ''source'' \<noteq> None"
    using assms run_chunks_have_source by (intro upserts_keep_sources) blast+
  with assms show ?thesis
    by (simp add: update_journal_index_eq index_journal_cases)
qed

section \<open>Claims about the incremental indexer\<close>

lemma prep_calls_no_encode [simp]: "Encode d \<notin> set (prep_calls w full)"
  by (auto simp add: prep_calls_def)

lemma prep_calls_no_upsert [simp]: "StoreUpsert ids \<notin> set (prep_calls w full)"
  by (auto simp add: prep_calls_def)

lemma loads_no_encode [simp]:
  "Encode d \<notin> (\<lambda>f. FrontmatterLoad (file_rel_path f)) ` S"
  by auto

lemma loads_no_upsert [simp]:
  "StoreUpsert ids \<notin> (\<lambda>f. FrontmatterLoad (file_rel_path f)) ` S"
  by auto

text \<open>
  C7: a run of \<open>update_journal_index\<close> in which \<open>index_chunks\<close> was entered (the batch was
  sent to the embedding model) and the embedding or the upsert raises, in particular one
  in which the upsert was attempted and raises, returns \<open>success = False\<close> and leaves the
  watermark file as it was; no unsuccessful run changes the watermark; and a run that
  changes it is successful, has made the upsert as its last call, without an exception,
  and has stored the chunks.
\<close>

theorem failed_upsert_keeps_watermark:
  assumes "update_journal_index w full = ((success, message), w')"
  shows "((\<exists>ids. StoreUpsert ids \<in> set (new_calls w w')) \<and> fault_upsert w \<noteq> None
            \<longrightarrow> \<not> success \<and> watermark w' = watermark w)
    \<and> ((\<exists>docs. Encode docs \<in> set (new_calls w w'))
          \<and> (fault_encode w \<noteq> None \<or> fault_upsert w \<noteq> None)
            \<longrightarrow> \<not> success \<and> watermark w' = watermark w)
    \<and> (\<not> success \<longrightarrow> watermark w' = watermark w)
    \<and> (watermark w' \<noteq> watermark w
            \<longrightarrow> success \<and> fault_encode w = None \<and> fault_upsert w = None
                \<and> watermark w' = WmStamp (clock w)
                \<and> new_calls w w' = prep_calls w full
                      @ [Encode (map chunk_text (run_chunks w full)),
                         StoreUpsert (map chunk_id (run_chunks w full))]
                \<and> store w' = foldl (\<lambda>st c. upsert_item (item_of_chunk w c) st)
                                   (store w) (run_chunks w full))"
proof -
  define A where "A = (\<not> full \<and> parsed (selected_files w full) = [])"
  define B where "B = (\<not> model_available w \<or> \<not> store_available w)"
  have run: "((success, message), w') =
     (if A then
        ((True, ''No new or modified journal entries found.''),
         w\<lparr>calls := calls w @ map (\<lambda>f. FrontmatterLoad (file_rel_path f)) (selected_files w full)\<rparr>)
      else if run_chunks w full = [] then
        ((True, ''No chunks generated from ''
                  @ str_of_nat (length (parsed (selected_files w full))) @ '' files.''),
         w\<lparr>calls := calls w @ prep_calls w full\<rparr>)
      else if B then
        ((False, ''Failed to initialize embedding model or vector store.''),
         w\<lparr>calls := calls w @ prep_calls w full\<rparr>)
      else if fault_encode w \<noteq> None then
        ((False, ''Indexing failed.''),
         w\<lparr>calls := calls w @ prep_calls w full @ [Encode (map chunk_text (run_chunks w full))]\<rparr>)
      else if fault_upsert w \<noteq> None then
        ((False, ''Indexing failed.''),
         w\<lparr>calls := calls w @ prep_calls w full
                      @ [Encode (map chunk_text (run_chunks w full)),
                         StoreUpsert (map chunk_id (run_chunks w full))]\<rparr>)
      else
        ((True, ''Successfully indexed '' @ str_of_nat (length (run_chunks w full))
                  @ '' chunks from '' @ str_of_nat (length (parsed (selected_files w full)))
                  @ '' files.''),
         w\<lparr>calls := calls w @ prep_calls w full
                      @ [Encode (map chunk_text (run_chunks w full)),
                         StoreUpsert (map chunk_id (run_chunks w full))],
           store := foldl (\<lambda>st c. upsert_item (item_of_chunk w c) st) (store w) (run_chunks w full),
           watermark := (case fault_write_time w of
                           None \<Rightarrow> WmStamp (clock w) | Some m \<Rightarrow> watermark w)\<rparr>))"
    unfolding A_def B_def index_journal_cases [symmetric]
    using assms by (simp add: update_journal_index_eq)
  consider
      (none) "A"
    | (nochunks) "\<not> A" "run_chunks w full = []"
    | (noinit) "\<not> A" "run_chunks w full \<noteq> []" "B"
    | (noenc) "\<not> A" "run_chunks w full \<noteq> []" "\<not> B" "fault_encode w \<noteq> None"
    | (noups) "\<not> A" "run_chunks w full \<noteq> []" "\<not> B" "fault_encode w = None"
               "fault_upsert w \<noteq> None"
    | (ok) "\<not> A" "run_chunks w full \<noteq> []" "\<not> B" "fault_encode w = None"
               "fault_upsert w = None"
    by blast
  then show ?thesis
  proof cases
    case none
    from none run have "success" "w' = w\<lparr>calls := calls w @ map (\<lambda>f. FrontmatterLoad (file_rel_path f))
                                                   (selected_files w full)\<rparr>"
      by simp_all
    then show ?thesis by (simp add: new_calls_def)
  next
    case nochunks
    from nochunks run have "success" "w' = w\<lparr>calls := calls w @ prep_calls w full\<rparr>"
      by simp_all
    then show ?thesis by (simp add: new_calls_def)
  next
    case noinit
    from noinit run have "\<not> success" "w' = w\<lparr>calls := calls w @ prep_calls w full\<rparr>"
      by simp_all
    then show ?thesis by (simp add: new_calls_def)
  next
    case noenc
    from noenc run have "\<not> success"
      "w' = w\<lparr>calls := calls w @ prep_calls w full @ [Encode (map chunk_text (run_chunks w full))]\<rparr>"
      by simp_all
    then show ?thesis by (simp add: new_calls_def)
  next
    case noups
    from noups run have "\<not> success"
      "w' = w\<lparr>calls := calls w @ prep_calls w full
                      @ [Encode (map chunk_text (run_chunks w full)),
                         StoreUpsert (map chunk_id (run_chunks w full))]\<rparr>"
      by simp_all
    then show ?thesis by (simp add: new_calls_def)
  next
    case ok
    from ok run have s: "success" and
      w': "w' = w\<lparr>calls := calls w @ prep_calls w full
                      @ [Encode (map chunk_text (run_chunks w full)),
                         StoreUpsert (map chunk_id (run_chunks w full))],
           store := foldl (\<lambda>st c. upsert_item (item_of_chunk w c) st) (store w) (run_chunks w full),
           watermark := (case fault_write_time w of
                           None \<Rightarrow> WmStamp (clock w) | Some m \<Rightarrow> watermark w)\<rparr>"
      by simp_all
    from s ok(4,5) show ?thesis
      unfolding w' by (simp add: new_calls_def split: option.splits)
  qed
qed

lemmas indexer_defs =
  update_journal_index_def import_from_rag_search_def rag_search_names_def index_journal_def
  load_markdown_docs_def load_markdown_docs_since_def get_last_indexed_time_def endswith_def
  with_source_def split_docs_def chunks_of_doc_def make_chunk_def index_chunks_def
  update_last_indexed_time_def item_of_chunk_def new_calls_def md_get_default_def md_get_def
  Let_def

lemmas journal_defs =
  failing_world_def journal_world_def base_world_def str_of_nat_small

theorem failed_upsert_keeps_watermark_witness:
  "update_journal_index failing_world False =
     ((False, ''Indexing failed.''), snd (update_journal_index failing_world False))
   \<and> fault_upsert failing_world \<noteq> None
   \<and> new_calls failing_world (snd (update_journal_index failing_world False)) =
       [FrontmatterLoad ''2024/a.md'', FrontmatterLoad ''broken.md'', SplitText ''hello'',
        Encode [''hello''], StoreUpsert [''2024/a.md_0'']]
   \<and> watermark (snd (update_journal_index failing_world False)) = WmStamp 10"
proof -
  let ?run = "update_journal_index failing_world False"
  have "fst ?run = (False, ''Indexing failed.'')"
    by (simp add: indexer_defs journal_defs)
  then have h: "?run = ((False, ''Indexing failed.''), snd ?run)"
    by (metis prod.collapse)
  have c: "new_calls failing_world (snd ?run) =
       [FrontmatterLoad ''2024/a.md'', FrontmatterLoad ''broken.md'', SplitText ''hello'',
        Encode [''hello''], StoreUpsert [''2024/a.md_0'']]"
    by (simp add: indexer_defs journal_defs)
  have f: "fault_upsert failing_world \<noteq> None"
    by (simp add: failing_world_def)
  have "watermark failing_world = WmStamp 10"
    by (simp add: journal_defs)
  with failed_upsert_keeps_watermark [OF h] c f
  have "watermark (snd ?run) = WmStamp 10"
    by simp
  with h c f show ?thesis by simp
qed








section \<open>Claims about the chunker\<close>

text \<open>
  C2, as the code has it: \<open>split_docs\<close> turns the pieces that the text splitter returns
  for a document into chunks, in order; the chunk of index \<open>i\<close> has the id
  \<open><source>_<i>\<close>, the piece as text, and the document's metadata with \<open>chunk_index = i\<close>
  and \<open>chunk_id\<close> stored, every other key as the document has it. No \<open>chunk_type\<close> is
  set: a chunk has one only if the document's own metadata has it, whatever the number
  of chunks.
\<close>

theorem split_docs_metadata:
  "fst (split_docs w docs) = concat (map (chunks_of_doc w) docs)
   \<and> (\<forall>doc\<in>set docs.
        length (chunks_of_doc w doc) = length (split_text w (post_content doc))
        \<and> (\<forall>i < length (split_text w (post_content doc)).
             let c = chunks_of_doc w doc ! i
             in chunk_text c = split_text w (post_content doc) ! i
              \<and> chunk_id c = py_str (case md_get (post_metadata doc) ''source'' of
                                        Some s \<Rightarrow> s | None \<Rightarrow> MStr ''unknown'')
                               @ ''_'' @ str_of_nat i
              \<and> md_get (chunk_metadata c) ''chunk_index'' = Some (MInt (int i))
              \<and> md_get (chunk_metadata c) ''chunk_id'' = Some (MStr (chunk_id c))
              \<and> md_get (chunk_metadata c) ''chunk_type''
                  = md_get (post_metadata doc) ''chunk_type''
              \<and> (\<forall>k. k \<noteq> ''chunk_index'' \<and> k \<noteq> ''chunk_id''
                     \<longrightarrow> md_get (chunk_metadata c) k = md_get (post_metadata doc) k)))"
proof -
  have each: "chunks_of_doc w doc ! i = make_chunk doc i (split_text w (post_content doc) ! i)"
    if "i < length (split_text w (post_content doc))" for doc i
    using that by (simp add: chunks_of_doc_def nth_enumerate_eq)
  have fields: "chunk_text (make_chunk doc i p) = p
      \<and> chunk_id (make_chunk doc i p) = py_str (case md_get (post_metadata doc) ''source'' of
                                        Some s \<Rightarrow> s | None \<Rightarrow> MStr ''unknown'')
                               @ ''_'' @ str_of_nat i
      \<and> md_get (chunk_metadata (make_chunk doc i p)) ''chunk_index'' = Some (MInt (int i))
      \<and> md_get (chunk_metadata (make_chunk doc i p)) ''chunk_id''
           = Some (MStr (chunk_id (make_chunk doc i p)))
      \<and> md_get (chunk_metadata (make_chunk doc i p)) ''chunk_type''
           = md_get (post_metadata doc) ''chunk_type''
      \<and> (\<forall>k. k \<noteq> ''chunk_index'' \<and> k \<noteq> ''chunk_id''
             \<longrightarrow> md_get (chunk_metadata (make_chunk doc i p)) k = md_get (post_metadata doc) k)"
    for doc i p
    by (simp add: make_chunk_def md_get_def md_get_default_def Let_def update_conv')
  have len: "length (chunks_of_doc w doc) = length (split_text w (post_content doc))" for doc
    by (simp add: chunks_of_doc_def)
  show ?thesis
    by (simp add: split_docs_eq len each fields Let_def)
qed

theorem split_docs_metadata_witness:
  "fst (split_docs halving_world [short_doc]) = chunks_of_doc halving_world short_doc
   \<and> map chunk_id (chunks_of_doc halving_world short_doc) = [''a.md_0'', ''a.md_1'']
   \<and> map chunk_text (chunks_of_doc halving_world short_doc) = [''hel'', ''lo'']"
proof -
  have "map chunk_id (chunks_of_doc halving_world short_doc) = [''a.md_0'', ''a.md_1'']
      \<and> map chunk_text (chunks_of_doc halving_world short_doc) = [''hel'', ''lo'']"
    by (simp add: chunks_of_doc_def make_chunk_def halving_world_def short_doc_def base_world_def
          md_get_default_def Let_def str_of_nat_small)
  with split_docs_metadata [of halving_world "[short_doc]"] show ?thesis
    by simp
qed

text \<open>
  C2 as stated fails: the single chunk of a document of one piece has no
  \<open>chunk_type\<close>, where the claim has \<open>full_entry\<close>, and the two chunks of a document of two
  pieces have none either, where the claim has \<open>partial_entry\<close>.
\<close>

theorem chunk_type_unset_counterexample:
  "map (\<lambda>c. md_get (chunk_metadata c) ''chunk_type'') (fst (split_docs base_world [short_doc]))
     = [None]
   \<and> map (\<lambda>c. md_get (chunk_metadata c) ''chunk_type'') (fst (split_docs halving_world [short_doc]))
     = [None, None]
   \<and> None \<noteq> Some (MStr ''full_entry'') \<and> None \<noteq> Some (MStr ''partial_entry'')"
  by (simp add: split_docs_def chunks_of_doc_def make_chunk_def halving_world_def short_doc_def
        base_world_def md_get_default_def md_get_def Let_def str_of_nat_small)

end
